theory Spec2Isabelle
  imports Complex_Main
begin

section \<open>Data model (src/core/models.py, src/core/config.py)\<close>

text \<open>
  Python strings are sequences of code points. User-supplied text (questions, answers,
  prompts) is a list of code points; identifiers, topic names and log texts, which the
  code builds from ASCII literals, are HOL strings.
\<close>

type_synonym ustring = "nat list"

definition ascii :: "string \<Rightarrow> ustring" where
  "ascii s = map of_char s"

datatype LanguageType = CHINESE | ENGLISH | AUTO

datatype AgentType = CHINESE_TEACHER | ENGLISH_TEACHER

text \<open>An exception caught by \<^verbatim>\<open>except Exception as e\<close>; the text is \<^verbatim>\<open>str(e)\<close>.\<close>

datatype exn = Exception ustring


text \<open>
  Floats (costs, clock readings, durations) are exact rationals here: the rounding of
  IEEE arithmetic is outside this development.
\<close>

record Message =
  m_message_id :: string
  m_user_id :: string
  m_content :: ustring
  m_language :: LanguageType
  m_timestamp :: rat

record CostInfo =
  input_tokens :: int
  output_tokens :: int
  total_tokens :: int
  cost_usd :: rat
  model_name :: string

record Response =
  message_id :: string
  success :: bool
  content :: ustring
  agent_type :: AgentType
  cost_info :: CostInfo
  response_time :: rat
  timestamp :: rat

text \<open>The values of the string enumerations (\<^verbatim>\<open>use_enum_values = True\<close>).\<close>

fun AgentType_value :: "AgentType \<Rightarrow> string" where
  "AgentType_value CHINESE_TEACHER = ''chinese_teacher''"
| "AgentType_value ENGLISH_TEACHER = ''english_teacher''"

definition LanguageType_of_value :: "string \<Rightarrow> LanguageType option" where
  "LanguageType_of_value v =
     (if v = ''chinese'' then Some CHINESE
      else if v = ''english'' then Some ENGLISH
      else if v = ''auto'' then Some AUTO
      else None)"

text \<open>\<^verbatim>\<open>Config.TOPICS\<close>, one constant per key the code looks up.\<close>

definition TOPICS_chinese_teacher :: string where
  "TOPICS_chinese_teacher = ''chinese_teacher''"

definition TOPICS_english_teacher :: string where
  "TOPICS_english_teacher = ''english_teacher''"

definition TOPICS_cost_monitor :: string where
  "TOPICS_cost_monitor = ''cost_monitor''"

definition TOPICS_responses :: string where
  "TOPICS_responses = ''responses''"

subsection \<open>Dictionaries on the bus\<close>

text \<open>
  A JSON dictionary read from the bus may lack keys. It is a record of optional
  fields: \<open>None\<close> is a missing key. A value of the wrong JSON type is outside the
  model.
\<close>

record message_data =
  d_message_id :: "string option"
  d_user_id :: "string option"
  d_content :: "ustring option"
  d_language :: "string option"
  d_timestamp :: "string option"

record cost_info_data =
  d_input_tokens :: "int option"
  d_output_tokens :: "int option"
  d_total_tokens :: "int option"
  d_cost_usd :: "rat option"
  d_model_name :: "string option"

record cost_data =
  c_message_id :: "string option"
  c_agent_type :: "string option"
  c_cost_info :: "cost_info_data option"
  c_timestamp :: "rat option"

text \<open>
  \<^verbatim>\<open>Message(**message_data)\<close>: every field of the model is required, the language
  must be a value of the enumeration and the timestamp must validate as a datetime;
  otherwise the constructor raises. The datetime validation of the model library is
  the parameter \<open>parse_datetime\<close>: the instant a text denotes (in seconds), or
  \<open>None\<close> where the library rejects it.
\<close>

definition Message_of_dict :: "(string \<Rightarrow> rat option) \<Rightarrow> message_data \<Rightarrow> exn + Message" where
  "Message_of_dict parse_datetime d =
     (case (d_message_id d, d_user_id d, d_content d,
            Option.bind (d_language d) LanguageType_of_value,
            Option.bind (d_timestamp d) parse_datetime) of
        (Some i, Some u, Some c, Some l, Some t) \<Rightarrow>
          Inr \<lparr>m_message_id = i, m_user_id = u, m_content = c, m_language = l, m_timestamp = t\<rparr>
      | _ \<Rightarrow> Inl (Exception (ascii ''validation error'')))"

text \<open>\<^verbatim>\<open>CostInfo.dict()\<close>.\<close>

definition CostInfo_dict :: "CostInfo \<Rightarrow> cost_info_data" where
  "CostInfo_dict ci =
     \<lparr>d_input_tokens = Some (input_tokens ci), d_output_tokens = Some (output_tokens ci),
      d_total_tokens = Some (total_tokens ci), d_cost_usd = Some (cost_usd ci),
      d_model_name = Some (model_name ci)\<rparr>"

text \<open>What \<^verbatim>\<open>KafkaClient.send_message\<close> is given as \<^verbatim>\<open>message\<close>.\<close>

datatype payload = ResponsePayload Response | CostPayload cost_data | MessagePayload Message

text \<open>
  The bus: \<^verbatim>\<open>KafkaClient.send_message(topic, message, key)\<close> returns (\<open>None\<close>) or
  raises (\<open>Some e\<close>). What a component does to the outside is a list of effects, in
  order: a send that returned, a send that raised, an error written to the log.
\<close>

type_synonym bus = "string \<Rightarrow> string \<Rightarrow> payload \<Rightarrow> exn option"

datatype effect =
    Sent string string payload
  | SendRaised string string payload
  | LogError string

section \<open>Router (src/producer.py)\<close>

text \<open>\<^verbatim>\<open>_contains_chinese\<close>: the first character in U+4E00 (19968) .. U+9FFF (40959) returns True.\<close>

fun contains_chinese :: "ustring \<Rightarrow> bool" where
  "contains_chinese [] = False"
| "contains_chinese (c # cs) =
     (if 19968 \<le> c \<and> c \<le> 40959 then True else contains_chinese cs)"

text \<open>
  The body of the \<^verbatim>\<open>try\<close> block of \<^verbatim>\<open>detect_language\<close>. The module flag
  \<^verbatim>\<open>LANGDETECT_AVAILABLE\<close> and the imported \<^verbatim>\<open>detect\<close> of the langdetect library
  are parameters; \<^verbatim>\<open>detect\<close> returns a language code or raises.
\<close>

definition detect_language_try ::
  "bool \<Rightarrow> (ustring \<Rightarrow> exn + string) \<Rightarrow> ustring \<Rightarrow> exn + LanguageType" where
  "detect_language_try LANGDETECT_AVAILABLE detect tx =
     (if LANGDETECT_AVAILABLE then
        (case detect tx of
           Inl e \<Rightarrow> Inl e
         | Inr detected \<Rightarrow>
             if detected \<in> set [''zh-cn'', ''zh-tw'', ''zh''] then Inr CHINESE
             else if contains_chinese tx then Inr CHINESE
             else Inr ENGLISH)
      else if contains_chinese tx then Inr CHINESE
      else Inr ENGLISH)"

text \<open>\<^verbatim>\<open>detect_language\<close>: the \<^verbatim>\<open>except Exception\<close> handler applies the character rule.\<close>

definition detect_language ::
  "bool \<Rightarrow> (ustring \<Rightarrow> exn + string) \<Rightarrow> ustring \<Rightarrow> exn + LanguageType" where
  "detect_language LANGDETECT_AVAILABLE detect tx =
     (case detect_language_try LANGDETECT_AVAILABLE detect tx of
        Inr l \<Rightarrow> Inr l
      | Inl e \<Rightarrow> if contains_chinese tx then Inr CHINESE else Inr ENGLISH)"

text \<open>\<^verbatim>\<open>route_to_topic\<close>.\<close>

definition route_to_topic :: "LanguageType \<Rightarrow> string" where
  "route_to_topic language =
     (if language = CHINESE then TOPICS_chinese_teacher else TOPICS_english_teacher)"

text \<open>
  \<^verbatim>\<open>MessageProducer.send_message\<close>. The identifier drawn by \<^verbatim>\<open>uuid.uuid4()\<close> and the
  reading of the clock are parameters. The result dictionary is \<open>SendOk\<close> with the
  identifier, the topic and the language, or \<open>SendError\<close> with the text of the
  exception.
\<close>

datatype send_result = SendOk string string LanguageType | SendError ustring

definition send_message ::
  "bool \<Rightarrow> (ustring \<Rightarrow> exn + string) \<Rightarrow> bus \<Rightarrow> string \<Rightarrow> rat \<Rightarrow> ustring \<Rightarrow> string
     \<Rightarrow> send_result" where
  "send_message LANGDETECT_AVAILABLE detect kafka uuid4 now body user_id =
     (let mid = uuid4 in
      case detect_language LANGDETECT_AVAILABLE detect body of
        Inl (Exception e) \<Rightarrow> SendError e
      | Inr language \<Rightarrow>
          (let message = \<lparr>m_message_id = mid, m_user_id = user_id, m_content = body,
                           m_language = language, m_timestamp = now\<rparr>;
               target_topic = route_to_topic language
           in (case kafka target_topic mid (MessagePayload message) of
                 Some (Exception e) \<Rightarrow> SendError e
               | None \<Rightarrow> SendOk mid target_topic language)))"

section \<open>Answer generators (src/llm/base_engine.py, src/agents/base_agent.py)\<close>

text \<open>
  An engine: its name, the two prices per 1000 tokens that \<^verbatim>\<open>calculate_cost\<close> of both
  engines of the repository reads from the configuration, and the outcome of
  \<^verbatim>\<open>generate_response\<close> on a prompt, a dictionary or an exception.
\<close>

record llm_response =
  llm_content :: ustring
  llm_success :: bool
  llm_cost_info :: CostInfo
  llm_error :: "ustring option"

record LLMEngine =
  name :: string
  INPUT_COST_PER_1K_TOKENS :: rat
  OUTPUT_COST_PER_1K_TOKENS :: rat
  generate_response :: "ustring \<Rightarrow> exn + llm_response"

definition calculate_cost :: "LLMEngine \<Rightarrow> int \<Rightarrow> int \<Rightarrow> rat" where
  "calculate_cost engine n_in n_out =
     (let input_cost = (of_int n_in / 1000) * INPUT_COST_PER_1K_TOKENS engine;
          output_cost = (of_int n_out / 1000) * OUTPUT_COST_PER_1K_TOKENS engine
      in input_cost + output_cost)"

definition create_cost_info :: "LLMEngine \<Rightarrow> int \<Rightarrow> int \<Rightarrow> CostInfo" where
  "create_cost_info engine n_in n_out =
     \<lparr>input_tokens = n_in, output_tokens = n_out,
      total_tokens = n_in + n_out,
      cost_usd = calculate_cost engine n_in n_out,
      model_name = name engine\<rparr>"

record BaseAgent =
  a_agent_type :: AgentType
  llm_engine :: LLMEngine
  get_system_prompt :: ustring

text \<open>The prompt: system prompt, two newlines, \<^verbatim>\<open>User Question: \<close>, the content.\<close>

definition full_prompt :: "BaseAgent \<Rightarrow> Message \<Rightarrow> ustring" where
  "full_prompt agent message =
     get_system_prompt agent @ [10, 10] @ ascii ''User Question: '' @ m_content message"

text \<open>
  \<^verbatim>\<open>BaseAgent.process_message\<close>. \<open>now k\<close> is the k-th reading of \<^verbatim>\<open>datetime.now()\<close>
  in seconds. The handler builds the error response from \<^verbatim>\<open>create_cost_info(0, 0)\<close>.
\<close>

definition process_message :: "BaseAgent \<Rightarrow> (nat \<Rightarrow> rat) \<Rightarrow> Message \<Rightarrow> Response" where
  "process_message agent now message =
     (let start_time = now 0 in
      case generate_response (llm_engine agent) (full_prompt agent message) of
        Inr llm \<Rightarrow>
          \<lparr>message_id = m_message_id message,
           success = llm_success llm,
           content = (if llm_success llm then llm_content llm
                      else ascii ''Processing failed: ''
                           @ (case llm_error llm of Some e \<Rightarrow> e | None \<Rightarrow> ascii ''None'')),
           agent_type = a_agent_type agent,
           cost_info = llm_cost_info llm,
           response_time = now 1 - start_time,
           timestamp = now 2\<rparr>
      | Inl (Exception e) \<Rightarrow>
          \<lparr>message_id = m_message_id message,
           success = False,
           content = ascii ''System error: '' @ e,
           agent_type = a_agent_type agent,
           cost_info = create_cost_info (llm_engine agent) 0 0,
           response_time = now 1 - start_time,
           timestamp = now 2\<rparr>)"

section \<open>Workers and the reply publisher (src/consumer.py)\<close>

text \<open>\<^verbatim>\<open>_send_response\<close>: one call of the bus; an exception is logged.\<close>

definition send_response :: "bus \<Rightarrow> Response \<Rightarrow> effect list" where
  "send_response kafka response =
     (case kafka TOPICS_responses (message_id response) (ResponsePayload response) of
        None \<Rightarrow> [Sent TOPICS_responses (message_id response) (ResponsePayload response)]
      | Some e \<Rightarrow> [SendRaised TOPICS_responses (message_id response) (ResponsePayload response),
                   LogError ''Failed to send response''])"

text \<open>\<^verbatim>\<open>_send_cost_info\<close>: the cost event built from the response, one call of the bus.\<close>

definition cost_data_of :: "Response \<Rightarrow> cost_data" where
  "cost_data_of response =
     \<lparr>c_message_id = Some (message_id response),
      c_agent_type = Some (AgentType_value (agent_type response)),
      c_cost_info = Some (CostInfo_dict (cost_info response)),
      c_timestamp = Some (timestamp response)\<rparr>"

definition send_cost_info :: "bus \<Rightarrow> Response \<Rightarrow> effect list" where
  "send_cost_info kafka response =
     (let cd = cost_data_of response in
      case kafka TOPICS_cost_monitor (message_id response) (CostPayload cd) of
        None \<Rightarrow> [Sent TOPICS_cost_monitor (message_id response) (CostPayload cd)]
      | Some e \<Rightarrow> [SendRaised TOPICS_cost_monitor (message_id response) (CostPayload cd),
                   LogError ''Failed to send cost info''])"

text \<open>
  \<^verbatim>\<open>AgentConsumer._process_message\<close>: parse, let the agent answer, send the response,
  send the cost event. An exception of the parse ends in the handler, which logs.
\<close>

definition consumer_process_message ::
  "(string \<Rightarrow> rat option) \<Rightarrow> BaseAgent \<Rightarrow> bus \<Rightarrow> (nat \<Rightarrow> rat) \<Rightarrow> message_data
     \<Rightarrow> effect list" where
  "consumer_process_message parse_datetime agent kafka now d =
     (case Message_of_dict parse_datetime d of
        Inl e \<Rightarrow> [LogError ''Error processing message'']
      | Inr message \<Rightarrow>
          let response = process_message agent now message
          in send_response kafka response @ send_cost_info kafka response)"

text \<open>Reading a list of effects: the calls of the bus, and the sends that returned.\<close>

fun attempts :: "effect list \<Rightarrow> (string \<times> string \<times> payload) list" where
  "attempts [] = []"
| "attempts (Sent t k p # es) = (t, k, p) # attempts es"
| "attempts (SendRaised t k p # es) = (t, k, p) # attempts es"
| "attempts (LogError m # es) = attempts es"

fun published :: "effect list \<Rightarrow> (string \<times> string \<times> payload) list" where
  "published [] = []"
| "published (Sent t k p # es) = (t, k, p) # published es"
| "published (SendRaised t k p # es) = published es"
| "published (LogError m # es) = published es"

text \<open>The replies among the calls of the bus on the reply channel.\<close>

fun replies_of :: "(string \<times> string \<times> payload) list \<Rightarrow> Response list" where
  "replies_of [] = []"
| "replies_of ((t, k, ResponsePayload r) # xs) =
     (if t = TOPICS_responses then r # replies_of xs else replies_of xs)"
| "replies_of ((t, k, CostPayload c) # xs) = replies_of xs"
| "replies_of ((t, k, MessagePayload m) # xs) = replies_of xs"

section \<open>Reply correlation (cli.py)\<close>

text \<open>
  \<^verbatim>\<open>self.responses\<close>, the dictionary from request identifier to response data. A
  message on the reply channel is the dictionary of a \<open>Response\<close>.
\<close>

type_synonym responses = "string \<rightharpoonup> Response"

text \<open>
  The body of the inner loop of \<^verbatim>\<open>_listen_responses\<close> for one message: a truthy
  (non-empty) identifier stores the message under it. The listener looks at nothing
  but the identifier.
\<close>

definition listen_message :: "Response \<Rightarrow> responses \<Rightarrow> responses" where
  "listen_message response_data rs =
     (let mid = message_id response_data in
      if mid \<noteq> [] then rs(mid \<mapsto> response_data) else rs)"

text \<open>The messages of one or more polls, in the order the listener handles them.\<close>

definition listen_responses :: "Response list \<Rightarrow> responses \<Rightarrow> responses" where
  "listen_responses messages rs = fold listen_message messages rs"

text \<open>
  What \<^verbatim>\<open>ask_question\<close> returns: the response data, or the dictionary with
  \<^verbatim>\<open>success\<close> False, the given \<^verbatim>\<open>content\<close> and no \<^verbatim>\<open>cost_info\<close>.
\<close>

datatype ask_result = ResponseData Response | Failure ustring

definition timeout :: rat where
  "timeout = 30"

definition TimedOut :: ask_result where
  "TimedOut = Failure (ascii ''Response timeout'')"

text \<open>
  The waiting loop of \<^verbatim>\<open>ask_question\<close>. The caller is suspended once per iteration
  (\<^verbatim>\<open>wait_for\<close> on the event, at most one second); the listener runs meanwhile. A
  schedule lists, per iteration, the reading of the loop's clock at the timeout check
  and the messages the listener handles while the caller is suspended. The event only
  decides how long the suspension lasts and is not part of the state. The loop
  returns the result and the dictionary it leaves; \<open>None\<close> when the schedule ends
  with the caller still waiting.
\<close>

fun ask_question_wait ::
  "string \<Rightarrow> rat \<Rightarrow> (rat \<times> Response list) list \<Rightarrow> responses
     \<Rightarrow> (ask_result \<times> responses) option" where
  "ask_question_wait mid start_time [] rs =
     (case rs mid of
        Some response_data \<Rightarrow> Some (ResponseData response_data, rs(mid := None))
      | None \<Rightarrow> None)"
| "ask_question_wait mid start_time ((now, arrivals) # schedule) rs =
     (case rs mid of
        Some response_data \<Rightarrow> Some (ResponseData response_data, rs(mid := None))
      | None \<Rightarrow>
          if now - start_time > timeout then Some (TimedOut, rs)
          else ask_question_wait mid start_time schedule (listen_responses arrivals rs))"

text \<open>\<^verbatim>\<open>ask_question\<close>: send, then wait for the identifier the send returned.\<close>

definition ask_question ::
  "bool \<Rightarrow> (ustring \<Rightarrow> exn + string) \<Rightarrow> bus \<Rightarrow> string \<Rightarrow> rat \<Rightarrow> ustring
     \<Rightarrow> rat \<Rightarrow> (rat \<times> Response list) list \<Rightarrow> responses
     \<Rightarrow> (ask_result \<times> responses) option" where
  "ask_question LANGDETECT_AVAILABLE detect kafka uuid4 now question start_time schedule rs =
     (case send_message LANGDETECT_AVAILABLE detect kafka uuid4 now question ''default_user'' of
        SendError e \<Rightarrow> Some (Failure (ascii ''Send failed: '' @ e), rs)
      | SendOk mid topic language \<Rightarrow> ask_question_wait mid start_time schedule rs)"

section \<open>Cost aggregation (src/monitor.py)\<close>

record CostMonitor =
  total_cost :: rat
  cost_by_agent :: "string \<rightharpoonup> rat"
  cost_by_model :: "string \<rightharpoonup> rat"
  message_count :: nat

text \<open>The statistics of \<^verbatim>\<open>__init__\<close>.\<close>

definition CostMonitor_init :: CostMonitor where
  "CostMonitor_init =
     \<lparr>total_cost = 0, cost_by_agent = Map.empty, cost_by_model = Map.empty, message_count = 0\<rparr>"

text \<open>The keys and the cost \<^verbatim>\<open>_process_cost_info\<close> reads, with the defaults of its \<^verbatim>\<open>get\<close> calls.\<close>

definition empty_cost_info :: cost_info_data where
  "empty_cost_info =
     \<lparr>d_input_tokens = None, d_output_tokens = None, d_total_tokens = None,
      d_cost_usd = None, d_model_name = None\<rparr>"

definition get_agent_type :: "cost_data \<Rightarrow> string" where
  "get_agent_type cd = (case c_agent_type cd of Some a \<Rightarrow> a | None \<Rightarrow> ''unknown'')"

definition get_cost_info :: "cost_data \<Rightarrow> cost_info_data" where
  "get_cost_info cd = (case c_cost_info cd of Some ci \<Rightarrow> ci | None \<Rightarrow> empty_cost_info)"

definition get_cost_usd :: "cost_data \<Rightarrow> rat" where
  "get_cost_usd cd = (case d_cost_usd (get_cost_info cd) of Some c \<Rightarrow> c | None \<Rightarrow> 0)"

definition get_model_name :: "cost_data \<Rightarrow> string" where
  "get_model_name cd =
     (case d_model_name (get_cost_info cd) of Some m \<Rightarrow> m | None \<Rightarrow> ''unknown'')"

text \<open>
  The two statements on a bucket: insert 0.0 under a new key, then add the cost.
\<close>

definition add_cost :: "string \<Rightarrow> rat \<Rightarrow> (string \<rightharpoonup> rat) \<Rightarrow> (string \<rightharpoonup> rat)" where
  "add_cost k c m =
     (let m1 = (if m k = None then m(k \<mapsto> 0) else m)
      in case m1 k of Some v \<Rightarrow> m1(k \<mapsto> v + c) | None \<Rightarrow> m1)"

text \<open>\<^verbatim>\<open>_process_cost_info\<close>.\<close>

definition process_cost_info :: "cost_data \<Rightarrow> CostMonitor \<Rightarrow> CostMonitor" where
  "process_cost_info cd st =
     (let agent = get_agent_type cd;
          cost = get_cost_usd cd;
          model = get_model_name cd
      in st\<lparr>total_cost := total_cost st + cost,
             cost_by_agent := add_cost agent cost (cost_by_agent st),
             cost_by_model := add_cost model cost (cost_by_model st),
             message_count := message_count st + 1\<rparr>)"

text \<open>The events the monitor loop hands to \<^verbatim>\<open>_process_cost_info\<close>, in order.\<close>

definition process_all :: "cost_data list \<Rightarrow> CostMonitor \<Rightarrow> CostMonitor" where
  "process_all events st = fold process_cost_info events st"

text \<open>\<^verbatim>\<open>get_statistics\<close>; the reading of the clock is a parameter.\<close>

record statistics =
  stat_total_cost :: rat
  stat_total_messages :: nat
  stat_average_cost_per_message :: rat
  stat_cost_by_agent :: "string \<rightharpoonup> rat"
  stat_cost_by_model :: "string \<rightharpoonup> rat"
  stat_timestamp :: rat

definition get_statistics :: "rat \<Rightarrow> CostMonitor \<Rightarrow> statistics" where
  "get_statistics now st =
     \<lparr>stat_total_cost = total_cost st,
      stat_total_messages = message_count st,
      stat_average_cost_per_message = total_cost st / of_nat (max (message_count st) 1),
      stat_cost_by_agent = cost_by_agent st,
      stat_cost_by_model = cost_by_model st,
      stat_timestamp = now\<rparr>"







section \<open>The contract of the specification for the bounded wait\<close>

text \<open>
  The specification words the wait as \<^verbatim>\<open>await_reply(id, t)\<close>, with a timeout \<open>t\<close> chosen
  per call. This is that contract over the same schedules, for comparison with
  \<open>ask_question_wait\<close>, which has no such argument.
\<close>

fun spec_await_reply ::
  "string \<Rightarrow> rat \<Rightarrow> rat \<Rightarrow> (rat \<times> Response list) list \<Rightarrow> responses
     \<Rightarrow> (ask_result \<times> responses) option" where
  "spec_await_reply mid t start_time [] rs =
     (case rs mid of
        Some response_data \<Rightarrow> Some (ResponseData response_data, rs(mid := None))
      | None \<Rightarrow> None)"
| "spec_await_reply mid t start_time ((now, arrivals) # schedule) rs =
     (case rs mid of
        Some response_data \<Rightarrow> Some (ResponseData response_data, rs(mid := None))
      | None \<Rightarrow>
          if now - start_time > t then Some (TimedOut, rs)
          else spec_await_reply mid t start_time schedule (listen_responses arrivals rs))"

section \<open>Concrete inputs\<close>

text \<open>
  An engine with the default prices of the Gemini configuration (0.000125 and 0.000375
  per 1000 tokens) whose call raises, an agent bound to it, a bus that accepts every
  send and one that refuses every send, a clock, and messages as they arrive.
\<close>

definition generate_raises :: "ustring \<Rightarrow> exn + llm_response" where
  "generate_raises prompt = Inl (Exception (ascii ''connection refused''))"

definition example_engine :: LLMEngine where
  "example_engine =
     \<lparr>name = ''gemini-1.5-flash'', INPUT_COST_PER_1K_TOKENS = 1 / 8000,
      OUTPUT_COST_PER_1K_TOKENS = 3 / 8000, generate_response = generate_raises\<rparr>"

definition example_agent :: BaseAgent where
  "example_agent =
     \<lparr>a_agent_type = ENGLISH_TEACHER, llm_engine = example_engine,
      get_system_prompt = ascii ''You are a professional English teacher assistant''\<rparr>"

definition example_clock :: "nat \<Rightarrow> rat" where
  "example_clock k = of_nat k"

definition kafka_ok :: bus where
  "kafka_ok topic key p = None"

definition kafka_down :: bus where
  "kafka_down topic key p = Some (Exception (ascii ''NoBrokersAvailable''))"

definition example_parse_datetime :: "string \<Rightarrow> rat option" where
  "example_parse_datetime s = (if s = ''2024-01-01T12:00:00'' then Some 1704110400 else None)"

definition example_message_data :: message_data where
  "example_message_data =
     \<lparr>d_message_id = Some ''id-1'', d_user_id = Some ''default_user'',
      d_content = Some (ascii ''Hello''), d_language = Some ''english'',
      d_timestamp = Some ''2024-01-01T12:00:00''\<rparr>"

definition example_message :: Message where
  "example_message =
     \<lparr>m_message_id = ''id-1'', m_user_id = ''default_user'', m_content = ascii ''Hello'',
      m_language = ENGLISH, m_timestamp = 1704110400\<rparr>"

definition bad_timestamp :: message_data where
  "bad_timestamp = example_message_data\<lparr>d_timestamp := Some ''not-a-date''\<rparr>"

definition no_fields :: message_data where
  "no_fields =
     \<lparr>d_message_id = None, d_user_id = None, d_content = None, d_language = None,
      d_timestamp = None\<rparr>"

definition example_response :: Response where
  "example_response =
     \<lparr>message_id = ''id-1'', success = True, content = ascii ''Hi'',
      agent_type = ENGLISH_TEACHER,
      cost_info = \<lparr>input_tokens = 12, output_tokens = 1, total_tokens = 13,
                    cost_usd = 3 / 1600, model_name = ''gemini-1.5-flash''\<rparr>,
      response_time = 1 / 2, timestamp = 2\<rparr>"

definition other_response :: Response where
  "other_response = example_response\<lparr>message_id := ''id-2''\<rparr>"

definition anonymous_response :: Response where
  "anonymous_response = example_response\<lparr>message_id := []\<rparr>"

definition event_without_fields :: cost_data where
  "event_without_fields =
     \<lparr>c_message_id = None, c_agent_type = None, c_cost_info = None, c_timestamp = None\<rparr>"

section \<open>Properties of the Router\<close>

lemma contains_chinese_iff:
  "contains_chinese tx = (\<exists>c \<in> set tx. 19968 \<le> c \<and> c \<le> 40959)"
  by (induction tx) auto

text \<open>
  Claim C2. A text holding at least one character in U+4E00..U+9FFF is classified as
  Chinese, whether or not the detector is available, whatever code it reports and
  whether or not it raises.
\<close>

theorem detect_language_chinese_range:
  assumes "c \<in> set tx" and "19968 \<le> c" and "c \<le> 40959"
  shows "detect_language LANGDETECT_AVAILABLE detect tx = Inr CHINESE"
proof -
  from assms have cc: "contains_chinese tx"
    unfolding contains_chinese_iff by blast
  show ?thesis
  proof (cases "detect_language_try LANGDETECT_AVAILABLE detect tx")
    case (Inl e)
    with cc show ?thesis by (simp add: detect_language_def)
  next
    case (Inr l)
    with cc have "l = CHINESE"
      by (auto simp: detect_language_try_def split: if_splits sum.splits)
    with Inr show ?thesis by (simp add: detect_language_def)
  qed
qed

theorem detect_language_chinese_range_witness:
  "(20320::nat) \<in> set [72, 105, 32, 20320, 22909] \<and> (19968::nat) \<le> 20320 \<and> (20320::nat) \<le> 40959
   \<and> detect_language True (\<lambda>t. Inr ''en'') [72, 105, 32, 20320, 22909] = Inr CHINESE
   \<and> detect_language True (\<lambda>t. Inl (Exception [])) [72, 105, 32, 20320, 22909] = Inr CHINESE
   \<and> detect_language False (\<lambda>t. Inr ''en'') [72, 105, 32, 20320, 22909] = Inr CHINESE"
  using detect_language_chinese_range [of 20320 "[72, 105, 32, 20320, 22909]" True "\<lambda>t. Inr ''en''"]
    detect_language_chinese_range [of 20320 "[72, 105, 32, 20320, 22909]" True "\<lambda>t. Inl (Exception [])"]
    detect_language_chinese_range [of 20320 "[72, 105, 32, 20320, 22909]" False "\<lambda>t. Inr ''en''"]
  by simp

text \<open>
  Claim C10. Classification never raises and never yields AUTO: the result is the
  Chinese or the English tag; when the detector raises the result is the one of the
  character rule, English unless a character lies in the range.
\<close>

theorem detect_language_total:
  "(detect_language LANGDETECT_AVAILABLE detect tx = Inr CHINESE
      \<or> detect_language LANGDETECT_AVAILABLE detect tx = Inr ENGLISH)
   \<and> detect_language LANGDETECT_AVAILABLE detect tx \<noteq> Inr AUTO
   \<and> (LANGDETECT_AVAILABLE \<and> isl (detect tx) \<longrightarrow>
        detect_language LANGDETECT_AVAILABLE detect tx
          = Inr (if contains_chinese tx then CHINESE else ENGLISH))"
  by (auto simp: detect_language_def detect_language_try_def split: sum.splits)

theorem detect_language_total_witness:
  "isl ((\<lambda>t. Inl (Exception (ascii ''boom''))) [72, 105 :: nat] :: exn + string)
   \<and> detect_language True (\<lambda>t. Inl (Exception (ascii ''boom''))) [72, 105] = Inr ENGLISH
   \<and> detect_language True (\<lambda>t. Inl (Exception (ascii ''boom''))) [] = Inr ENGLISH"
  using detect_language_total [of True "\<lambda>t. Inl (Exception (ascii ''boom''))" "[72, 105]"]
    detect_language_total [of True "\<lambda>t. Inl (Exception (ascii ''boom''))" "[]"]
  by simp

section \<open>Properties of the workers and the reply publisher\<close>

lemma calculate_cost_zero: "calculate_cost engine 0 0 = 0"
  by (simp add: calculate_cost_def)

lemma attempts_append: "attempts (xs @ ys) = attempts xs @ attempts ys"
  by (induction xs rule: attempts.induct) simp_all

lemma published_append: "published (xs @ ys) = published xs @ published ys"
  by (induction xs rule: published.induct) simp_all

lemma attempts_send_response:
  "attempts (send_response kafka r) = [(TOPICS_responses, message_id r, ResponsePayload r)]"
  by (simp add: send_response_def split: option.splits)

lemma attempts_send_cost_info:
  "attempts (send_cost_info kafka r)
     = [(TOPICS_cost_monitor, message_id r, CostPayload (cost_data_of r))]"
  by (simp add: send_cost_info_def Let_def split: option.splits)

lemma published_send_response:
  "published (send_response kafka r)
     = (if kafka TOPICS_responses (message_id r) (ResponsePayload r) = None
        then [(TOPICS_responses, message_id r, ResponsePayload r)] else [])"
  by (simp add: send_response_def split: option.splits)

lemma published_send_cost_info:
  "published (send_cost_info kafka r)
     = (if kafka TOPICS_cost_monitor (message_id r) (CostPayload (cost_data_of r)) = None
        then [(TOPICS_cost_monitor, message_id r, CostPayload (cost_data_of r))] else [])"
  by (simp add: send_cost_info_def Let_def split: option.splits)

lemma message_id_process_message:
  "message_id (process_message agent now message) = m_message_id message"
  by (simp add: process_message_def Let_def split: sum.splits exn.splits)

lemma process_message_raised:
  assumes "isl (generate_response (llm_engine agent) (full_prompt agent message))"
  shows "\<not> success (process_message agent now message)
    \<and> cost_info (process_message agent now message) = create_cost_info (llm_engine agent) 0 0"
  using assms by (auto simp: process_message_def Let_def split: sum.splits exn.splits)

text \<open>The constructor succeeds exactly on the dictionaries that pass every check.\<close>

lemma Message_of_dict_Inr_iff:
  "Message_of_dict parse_datetime d = Inr message \<longleftrightarrow>
     (\<exists>i u c v l s t. d_message_id d = Some i \<and> d_user_id d = Some u \<and> d_content d = Some c
        \<and> d_language d = Some v \<and> LanguageType_of_value v = Some l
        \<and> d_timestamp d = Some s \<and> parse_datetime s = Some t
        \<and> message = \<lparr>m_message_id = i, m_user_id = u, m_content = c, m_language = l,
                        m_timestamp = t\<rparr>)"
  by (auto simp: Message_of_dict_def Option.bind_eq_Some_conv split: option.splits)

lemma Message_of_dict_example:
  "Message_of_dict example_parse_datetime example_message_data = Inr example_message"
  by (simp add: Message_of_dict_def example_message_data_def example_message_def
      LanguageType_of_value_def example_parse_datetime_def)

lemma Message_of_dict_no_fields:
  "Message_of_dict parse_datetime no_fields = Inl (Exception (ascii ''validation error''))"
  by (simp add: Message_of_dict_def no_fields_def)

lemma Message_of_dict_bad_timestamp:
  "Message_of_dict example_parse_datetime bad_timestamp
     = Inl (Exception (ascii ''validation error''))"
  by (simp add: Message_of_dict_def bad_timestamp_def example_message_data_def
      LanguageType_of_value_def example_parse_datetime_def)

lemma example_agent_raises:
  "isl (generate_response (llm_engine example_agent) (full_prompt example_agent example_message))"
  by (simp add: example_agent_def example_engine_def generate_raises_def)

text \<open>
  Claim C1, as the code has it. A message that the Message constructor rejects (a
  required field missing, a language outside the enumeration, a timestamp that is no
  datetime) is logged and answered by nothing. A message that the constructor accepts,
  which is the case exactly when every field is present, the language is a value of
  the enumeration and the timestamp validates, is answered by exactly one Response,
  carrying the identifier of the message and handed to the bus once on the reply
  channel; it is published there when the bus accepts the send. When the engine raises,
  that Response has success False, zero input, output and total tokens and zero cost.
\<close>

theorem worker_reply:
  "(Message_of_dict parse_datetime d = Inl e \<longrightarrow>
      consumer_process_message parse_datetime agent kafka now d
        = [LogError ''Error processing message''])
   \<and> ((d_message_id d = None \<or> d_user_id d = None \<or> d_content d = None
        \<or> Option.bind (d_language d) LanguageType_of_value = None
        \<or> Option.bind (d_timestamp d) parse_datetime = None) \<longrightarrow>
      consumer_process_message parse_datetime agent kafka now d
        = [LogError ''Error processing message''])
   \<and> (Message_of_dict parse_datetime d = Inr message \<longrightarrow>
        d_message_id d = Some (m_message_id message)
      \<and> d_user_id d = Some (m_user_id message)
      \<and> d_content d = Some (m_content message)
      \<and> Option.bind (d_language d) LanguageType_of_value = Some (m_language message)
      \<and> Option.bind (d_timestamp d) parse_datetime = Some (m_timestamp message)
      \<and> replies_of (attempts (consumer_process_message parse_datetime agent kafka now d))
          = [process_message agent now message]
      \<and> message_id (process_message agent now message) = m_message_id message
      \<and> (kafka TOPICS_responses (m_message_id message)
            (ResponsePayload (process_message agent now message)) = None \<longrightarrow>
          replies_of (published (consumer_process_message parse_datetime agent kafka now d))
            = [process_message agent now message])
      \<and> (isl (generate_response (llm_engine agent) (full_prompt agent message)) \<longrightarrow>
          \<not> success (process_message agent now message)
          \<and> input_tokens (cost_info (process_message agent now message)) = 0
          \<and> output_tokens (cost_info (process_message agent now message)) = 0
          \<and> total_tokens (cost_info (process_message agent now message)) = 0
          \<and> cost_usd (cost_info (process_message agent now message)) = 0))"
proof (intro conjI impI)
  assume "Message_of_dict parse_datetime d = Inl e"
  then show "consumer_process_message parse_datetime agent kafka now d
               = [LogError ''Error processing message'']"
    by (simp add: consumer_process_message_def)
next
  assume "d_message_id d = None \<or> d_user_id d = None \<or> d_content d = None
        \<or> Option.bind (d_language d) LanguageType_of_value = None
        \<or> Option.bind (d_timestamp d) parse_datetime = None"
  then have "Message_of_dict parse_datetime d = Inl (Exception (ascii ''validation error''))"
    by (auto simp: Message_of_dict_def split: option.splits)
  then show "consumer_process_message parse_datetime agent kafka now d
               = [LogError ''Error processing message'']"
    by (simp add: consumer_process_message_def)
next
  assume ok: "Message_of_dict parse_datetime d = Inr message"
  let ?r = "process_message agent now message"
  from ok obtain i u c v l s t where f: "d_message_id d = Some i" "d_user_id d = Some u"
    "d_content d = Some c" "d_language d = Some v" "LanguageType_of_value v = Some l"
    "d_timestamp d = Some s" "parse_datetime s = Some t"
    and m: "message = \<lparr>m_message_id = i, m_user_id = u, m_content = c, m_language = l,
                        m_timestamp = t\<rparr>"
    unfolding Message_of_dict_Inr_iff by blast
  from f m show "d_message_id d = Some (m_message_id message)" by simp
  from f m show "d_user_id d = Some (m_user_id message)" by simp
  from f m show "d_content d = Some (m_content message)" by simp
  from f m show "Option.bind (d_language d) LanguageType_of_value = Some (m_language message)"
    by simp
  from f m show "Option.bind (d_timestamp d) parse_datetime = Some (m_timestamp message)"
    by simp
  have eff: "consumer_process_message parse_datetime agent kafka now d
               = send_response kafka ?r @ send_cost_info kafka ?r"
    using ok by (simp add: consumer_process_message_def Let_def)
  show "replies_of (attempts (consumer_process_message parse_datetime agent kafka now d)) = [?r]"
    by (simp add: eff attempts_append attempts_send_response attempts_send_cost_info
        TOPICS_responses_def TOPICS_cost_monitor_def)
  show "message_id ?r = m_message_id message"
    by (rule message_id_process_message)
  {
    assume "kafka TOPICS_responses (m_message_id message) (ResponsePayload ?r) = None"
    then show "replies_of (published (consumer_process_message parse_datetime agent kafka now d))
                 = [?r]"
      by (simp add: eff published_append published_send_response published_send_cost_info
          message_id_process_message TOPICS_responses_def TOPICS_cost_monitor_def)
  }
  {
    assume raised: "isl (generate_response (llm_engine agent) (full_prompt agent message))"
    note r = process_message_raised [OF raised, of now]
    from r show "\<not> success ?r" by simp
    from r show "input_tokens (cost_info ?r) = 0" by (simp add: create_cost_info_def)
    from r show "output_tokens (cost_info ?r) = 0" by (simp add: create_cost_info_def)
    from r show "total_tokens (cost_info ?r) = 0" by (simp add: create_cost_info_def)
    from r show "cost_usd (cost_info ?r) = 0"
      by (simp add: create_cost_info_def calculate_cost_zero)
  }
qed

theorem worker_reply_witness:
  "Message_of_dict example_parse_datetime bad_timestamp
     = Inl (Exception (ascii ''validation error''))
   \<and> Option.bind (d_timestamp bad_timestamp) example_parse_datetime = None
   \<and> consumer_process_message example_parse_datetime example_agent kafka_ok example_clock
        bad_timestamp = [LogError ''Error processing message'']
   \<and> Message_of_dict example_parse_datetime example_message_data = Inr example_message
   \<and> kafka_ok TOPICS_responses (m_message_id example_message)
       (ResponsePayload (process_message example_agent example_clock example_message)) = None
   \<and> isl (generate_response (llm_engine example_agent)
            (full_prompt example_agent example_message))
   \<and> replies_of (published
         (consumer_process_message example_parse_datetime example_agent kafka_ok example_clock
            example_message_data))
       = [process_message example_agent example_clock example_message]
   \<and> \<not> success (process_message example_agent example_clock example_message)
   \<and> total_tokens (cost_info (process_message example_agent example_clock example_message)) = 0
   \<and> cost_usd (cost_info (process_message example_agent example_clock example_message)) = 0"
proof -
  have bus: "kafka_ok TOPICS_responses (m_message_id example_message)
       (ResponsePayload (process_message example_agent example_clock example_message)) = None"
    by (simp add: kafka_ok_def)
  have bad: "Option.bind (d_timestamp bad_timestamp) example_parse_datetime = None"
    by (simp add: bad_timestamp_def example_parse_datetime_def)
  from worker_reply [where d = bad_timestamp and e = "Exception (ascii ''validation error'')"
      and parse_datetime = example_parse_datetime
      and agent = example_agent and kafka = kafka_ok and now = example_clock]
    worker_reply [where d = example_message_data and message = example_message
      and parse_datetime = example_parse_datetime
      and agent = example_agent and kafka = kafka_ok and now = example_clock]
    Message_of_dict_bad_timestamp Message_of_dict_example example_agent_raises bus bad
  show ?thesis by simp
qed

theorem worker_reply_counterexample:
  "Message_of_dict example_parse_datetime no_fields
     = Inl (Exception (ascii ''validation error''))
   \<and> consumer_process_message example_parse_datetime example_agent kafka_ok example_clock
        no_fields = [LogError ''Error processing message'']
   \<and> replies_of (attempts
         (consumer_process_message example_parse_datetime example_agent kafka_ok example_clock
            no_fields)) = []"
  by (simp add: Message_of_dict_no_fields consumer_process_message_def)

text \<open>
  Claim C9. For a message that parses, the worker calls the bus exactly twice, once with
  the Response on the reply channel and once on the telemetry channel with the event
  derived from it (the identifier, the value of the agent type, every field of the
  cost record and the timestamp of the Response), whatever either call does: an
  exception of one call is logged and leaves the other call in place, and what is
  published are the calls the bus accepted.
\<close>

theorem publisher_independent:
  assumes "Message_of_dict parse_datetime d = Inr message"
    and "response = process_message agent now message"
    and "effects = consumer_process_message parse_datetime agent kafka now d"
    and "event =
           \<lparr>c_message_id = Some (message_id response),
            c_agent_type = Some (case agent_type response of
                                   CHINESE_TEACHER \<Rightarrow> ''chinese_teacher''
                                 | ENGLISH_TEACHER \<Rightarrow> ''english_teacher''),
            c_cost_info = Some
              \<lparr>d_input_tokens = Some (input_tokens (cost_info response)),
               d_output_tokens = Some (output_tokens (cost_info response)),
               d_total_tokens = Some (total_tokens (cost_info response)),
               d_cost_usd = Some (cost_usd (cost_info response)),
               d_model_name = Some (model_name (cost_info response))\<rparr>,
            c_timestamp = Some (timestamp response)\<rparr>"
  shows "attempts effects
           = [(''responses'', message_id response, ResponsePayload response),
              (''cost_monitor'', message_id response, CostPayload event)]
         \<and> published effects = filter (\<lambda>(t, k, p). kafka t k p = None) (attempts effects)
         \<and> (kafka ''responses'' (message_id response) (ResponsePayload response) \<noteq> None
              \<longrightarrow> LogError ''Failed to send response'' \<in> set effects)
         \<and> (kafka ''cost_monitor'' (message_id response) (CostPayload event) \<noteq> None
              \<longrightarrow> LogError ''Failed to send cost info'' \<in> set effects)
         \<and> get_cost_usd event = cost_usd (cost_info response)
         \<and> get_model_name event = model_name (cost_info response)"
proof -
  have ev: "event = cost_data_of response"
    by (cases "agent_type response")
      (simp_all add: assms(4) cost_data_of_def CostInfo_dict_def)
  have eff: "effects = send_response kafka response @ send_cost_info kafka response"
    using assms(1-3) by (simp add: consumer_process_message_def Let_def)
  have a: "attempts effects
             = [(''responses'', message_id response, ResponsePayload response),
                (''cost_monitor'', message_id response, CostPayload event)]"
    by (simp add: eff ev attempts_append attempts_send_response attempts_send_cost_info
        TOPICS_responses_def TOPICS_cost_monitor_def)
  have p: "published effects = filter (\<lambda>(t, k, p). kafka t k p = None) (attempts effects)"
    unfolding a by (simp add: eff ev published_append published_send_response
        published_send_cost_info TOPICS_responses_def TOPICS_cost_monitor_def)
  have l1: "kafka ''responses'' (message_id response) (ResponsePayload response) \<noteq> None
              \<longrightarrow> LogError ''Failed to send response'' \<in> set effects"
    by (auto simp: eff send_response_def TOPICS_responses_def)
  have l2: "kafka ''cost_monitor'' (message_id response) (CostPayload event) \<noteq> None
              \<longrightarrow> LogError ''Failed to send cost info'' \<in> set effects"
    by (auto simp: eff ev send_cost_info_def Let_def TOPICS_cost_monitor_def)
  have c: "get_cost_usd event = cost_usd (cost_info response)"
    by (simp add: assms(4) get_cost_usd_def get_cost_info_def)
  have m: "get_model_name event = model_name (cost_info response)"
    by (simp add: assms(4) get_model_name_def get_cost_info_def)
  from a p l1 l2 c m show ?thesis by blast
qed

theorem publisher_independent_witness:
  "Message_of_dict example_parse_datetime example_message_data = Inr example_message
   \<and> kafka_down ''responses''
        (message_id (process_message example_agent example_clock example_message))
        (ResponsePayload (process_message example_agent example_clock example_message)) \<noteq> None
   \<and> attempts (consumer_process_message example_parse_datetime example_agent kafka_down
         example_clock example_message_data)
       = [(''responses'', ''id-1'',
           ResponsePayload (process_message example_agent example_clock example_message)),
          (''cost_monitor'', ''id-1'',
           CostPayload
             \<lparr>c_message_id = Some ''id-1'',
              c_agent_type = Some ''english_teacher'',
              c_cost_info = Some
                \<lparr>d_input_tokens = Some 0, d_output_tokens = Some 0, d_total_tokens = Some 0,
                 d_cost_usd = Some 0, d_model_name = Some ''gemini-1.5-flash''\<rparr>,
              c_timestamp = Some 2\<rparr>)]
   \<and> published (consumer_process_message example_parse_datetime example_agent kafka_down
         example_clock example_message_data) = []
   \<and> LogError ''Failed to send response''
       \<in> set (consumer_process_message example_parse_datetime example_agent kafka_down
                example_clock example_message_data)
   \<and> LogError ''Failed to send cost info''
       \<in> set (consumer_process_message example_parse_datetime example_agent kafka_down
                example_clock example_message_data)"
proof -
  let ?r = "process_message example_agent example_clock example_message"
  have id: "message_id ?r = ''id-1''"
    by (simp add: message_id_process_message example_message_def)
  have r: "agent_type ?r = ENGLISH_TEACHER" "timestamp ?r = 2"
    "cost_info ?r = \<lparr>input_tokens = 0, output_tokens = 0, total_tokens = 0, cost_usd = 0,
                      model_name = ''gemini-1.5-flash''\<rparr>"
    by (simp_all add: process_message_def Let_def example_agent_def example_engine_def
        generate_raises_def example_clock_def create_cost_info_def calculate_cost_def)
  from publisher_independent [where agent = example_agent and now = example_clock
      and kafka = kafka_down, OF Message_of_dict_example refl refl refl]
  show ?thesis
    by (simp add: Message_of_dict_example id r kafka_down_def)
qed

section \<open>Properties of the reply correlation\<close>

lemma listen_responses_append:
  "listen_responses (xs @ ys) rs = listen_responses ys (listen_responses xs rs)"
  by (simp add: listen_responses_def)

lemma listen_responses_Cons:
  "listen_responses (x # xs) rs = listen_responses xs (listen_message x rs)"
  by (simp add: listen_responses_def)

lemma listen_message_other:
  "message_id x \<noteq> mid \<Longrightarrow> listen_message x rs mid = rs mid"
  by (simp add: listen_message_def Let_def)

lemma listen_responses_other:
  "\<forall>x \<in> set xs. message_id x \<noteq> mid \<Longrightarrow> listen_responses xs rs mid = rs mid"
  by (induction xs arbitrary: rs) (simp_all add: listen_responses_def listen_message_other)

lemma listen_message_stored:
  "message_id r \<noteq> [] \<Longrightarrow> listen_message r rs (message_id r) = Some r"
  by (simp add: listen_message_def Let_def)

lemma listen_responses_last:
  assumes "message_id r = mid" and "mid \<noteq> []" and "\<forall>x \<in> set back. message_id x \<noteq> mid"
  shows "listen_responses (front @ r # back) rs mid = Some r"
proof -
  have "listen_responses (front @ r # back) rs mid
          = listen_responses back (listen_message r (listen_responses front rs)) mid"
    by (simp add: listen_responses_append listen_responses_Cons)
  also have "\<dots> = listen_message r (listen_responses front rs) mid"
    using assms(3) by (rule listen_responses_other)
  also have "\<dots> = Some r"
    using assms(1,2) listen_message_stored [of r] by simp
  finally show ?thesis .
qed

text \<open>The iterations that neither find a response nor pass the timeout.\<close>

lemma wait_idle_prefix:
  assumes "rs mid = None"
    and "\<forall>(now, arr) \<in> set pre. now - start_time \<le> timeout \<and> (\<forall>x \<in> set arr. message_id x \<noteq> mid)"
  shows "ask_question_wait mid start_time (pre @ schedule) rs
           = ask_question_wait mid start_time schedule (listen_responses (concat (map snd pre)) rs)
         \<and> listen_responses (concat (map snd pre)) rs mid = None"
  using assms
proof (induction pre arbitrary: rs)
  case Nil
  then show ?case by (simp add: listen_responses_def)
next
  case (Cons p pre)
  obtain now arr where p: "p = (now, arr)" by (cases p)
  from Cons.prems p have le: "now - start_time \<le> timeout"
    and other: "\<forall>x \<in> set arr. message_id x \<noteq> mid" by auto
  have none: "listen_responses arr rs mid = None"
    using other Cons.prems(1) by (simp add: listen_responses_other)
  have rest: "\<forall>(now, arr) \<in> set pre. now - start_time \<le> timeout
                \<and> (\<forall>x \<in> set arr. message_id x \<noteq> mid)"
    using Cons.prems(2) by simp
  from Cons.IH [where rs = "listen_responses arr rs", OF none rest] Cons.prems(1) le p
  show ?case
    by (simp add: listen_responses_append)
qed

text \<open>A wait that no matching message reaches can only end in the timeout.\<close>

lemma wait_no_reply:
  assumes "rs mid = None"
    and "\<forall>(now, arr) \<in> set schedule. \<forall>x \<in> set arr. message_id x \<noteq> mid"
    and "ask_question_wait mid start_time schedule rs = Some res"
  shows "fst res = TimedOut"
  using assms
proof (induction schedule arbitrary: rs)
  case Nil
  then show ?case by simp
next
  case (Cons p schedule)
  obtain now arr where p: "p = (now, arr)" by (cases p)
  show ?case
  proof (cases "now - start_time > timeout")
    case True
    with Cons.prems p show ?thesis by auto
  next
    case False
    have none: "listen_responses arr rs mid = None"
      using Cons.prems(1,2) p by (simp add: listen_responses_other)
    have rest: "\<forall>(now, arr) \<in> set schedule. \<forall>x \<in> set arr. message_id x \<noteq> mid"
      using Cons.prems(2) by simp
    from Cons.prems(1,3) p False
    have "ask_question_wait mid start_time schedule (listen_responses arr rs) = Some res"
      by simp
    from Cons.IH [where rs = "listen_responses arr rs", OF none rest this] show ?thesis .
  qed
qed

lemma ask_question_sent:
  "send_message LANGDETECT_AVAILABLE detect kafka uuid4 now question ''default_user''
     = SendOk mid topic language
   \<Longrightarrow> ask_question LANGDETECT_AVAILABLE detect kafka uuid4 now question start_time schedule rs
     = ask_question_wait mid start_time schedule rs"
  by (simp add: ask_question_def)

lemma example_response_id: "message_id example_response = ''id-1''"
  by (simp add: example_response_def)

lemma other_response_id: "message_id other_response = ''id-2''"
  by (simp add: other_response_def)

lemma anonymous_response_id: "message_id anonymous_response = []"
  by (simp add: anonymous_response_def)

text \<open>
  Claim C3, as the code has it. The timeout is the constant 30 of the loop, not one the
  caller chooses. A wait on a non-empty identifier starts with no response stored
  under it. While no message carries the identifier the checks stay within the 30
  seconds; then, within the 30 seconds, the listener handles messages of which \<open>r\<close>
  is the last one carrying the identifier. The wait returns \<open>r\<close> and leaves no entry
  under the identifier, and a later wait on it that no new matching message reaches
  never returns a response: it can only time out.
\<close>

theorem reply_returned_once:
  assumes "mid \<noteq> []" and "rs mid = None"
    and "\<forall>(n, arr) \<in> set pre. n - start_time \<le> timeout \<and> (\<forall>x \<in> set arr. message_id x \<noteq> mid)"
    and "now - start_time \<le> timeout"
    and "message_id r = mid" and "\<forall>x \<in> set back. message_id x \<noteq> mid"
  shows "\<exists>rs'. ask_question_wait mid start_time (pre @ (now, front @ r # back) # rest) rs
                 = Some (ResponseData r, rs')
          \<and> rs' mid = None
          \<and> (\<forall>later start2 res.
                (\<forall>(n, arr) \<in> set later. \<forall>x \<in> set arr. message_id x \<noteq> mid)
                \<and> ask_question_wait mid start2 later rs' = Some res
                \<longrightarrow> fst res = TimedOut)"
proof -
  let ?rs1 = "listen_responses (concat (map snd pre)) rs"
  let ?rs2 = "listen_responses (front @ r # back) ?rs1"
  from wait_idle_prefix [where rs = rs and mid = mid, OF assms(2,3)]
  have pre: "ask_question_wait mid start_time (pre @ (now, front @ r # back) # rest) rs
               = ask_question_wait mid start_time ((now, front @ r # back) # rest) ?rs1"
    and none: "?rs1 mid = None" by simp_all
  have stored: "?rs2 mid = Some r"
    using assms(5,1,6) by (rule listen_responses_last)
  have found: "ask_question_wait mid start_time rest ?rs2 = Some (ResponseData r, ?rs2(mid := None))"
    using stored by (cases rest) auto
  have "ask_question_wait mid start_time ((now, front @ r # back) # rest) ?rs1
          = Some (ResponseData r, ?rs2(mid := None))"
    using none assms(4) found by simp
  with pre have res: "ask_question_wait mid start_time (pre @ (now, front @ r # back) # rest) rs
                        = Some (ResponseData r, ?rs2(mid := None))" by simp
  have gone: "(?rs2(mid := None)) mid = None" by simp
  have again: "\<forall>later start2 res.
                (\<forall>(n, arr) \<in> set later. \<forall>x \<in> set arr. message_id x \<noteq> mid)
                \<and> ask_question_wait mid start2 later (?rs2(mid := None)) = Some res
                \<longrightarrow> fst res = TimedOut"
    using wait_no_reply [where rs = "?rs2(mid := None)" and mid = mid, OF gone] by blast
  from res gone again show ?thesis by blast
qed

theorem reply_returned_once_witness:
  "''id-1'' \<noteq> [] \<and> (Map.empty :: responses) ''id-1'' = None
   \<and> (1 :: rat) - 0 \<le> timeout \<and> message_id other_response \<noteq> ''id-1''
   \<and> 2 - 0 \<le> timeout
   \<and> message_id example_response = ''id-1''
   \<and> map_option fst (ask_question_wait ''id-1'' 0
         [(1, [other_response]), (2, [example_response, other_response]), (3, [])] Map.empty)
       = Some (ResponseData example_response)
   \<and> map_option (\<lambda>p. snd p ''id-1'') (ask_question_wait ''id-1'' 0
         [(1, [other_response]), (2, [example_response, other_response]), (3, [])] Map.empty)
       = Some None"
proof -
  have h1: "''id-1'' \<noteq> []" by simp
  have h2: "(Map.empty :: responses) ''id-1'' = None" by simp
  have le: "(1 :: rat) - 0 \<le> timeout" by (simp add: timeout_def)
  have other: "message_id other_response \<noteq> ''id-1''" by (simp add: other_response_id)
  have h3: "\<forall>(n, arr) \<in> set [(1, [other_response])].
              n - 0 \<le> timeout \<and> (\<forall>x \<in> set arr. message_id x \<noteq> ''id-1'')"
    using le other by simp
  have h4: "2 - 0 \<le> timeout" by (simp add: timeout_def)
  have h5: "message_id example_response = ''id-1''" by (rule example_response_id)
  have h6: "\<forall>x \<in> set [other_response]. message_id x \<noteq> ''id-1''"
    using other by simp
  note t = reply_returned_once [where rs = Map.empty and mid = "''id-1''" and front = "[]"
      and rest = "[(3, [])]", OF h1 h2 h3 h4 h5 h6, unfolded append_Cons append_Nil]
  from t obtain rs' where r: "ask_question_wait ''id-1'' 0
                [(1, [other_response]), (2, [example_response, other_response]), (3, [])]
                Map.empty = Some (ResponseData example_response, rs')"
    and g: "rs' ''id-1'' = None" by blast
  have r1: "map_option fst (ask_question_wait ''id-1'' 0
         [(1, [other_response]), (2, [example_response, other_response]), (3, [])] Map.empty)
       = Some (ResponseData example_response)"
    unfolding r by simp
  have r2: "map_option (\<lambda>p. snd p ''id-1'') (ask_question_wait ''id-1'' 0
         [(1, [other_response]), (2, [example_response, other_response]), (3, [])] Map.empty)
       = Some None"
    unfolding r using g by simp
  from h1 h2 le other h4 h5 r1 r2 show ?thesis by (intro conjI)
qed

theorem reply_within_longer_timeout_counterexample:
  "map_option fst (spec_await_reply ''id-1'' 60 0
       [(10, []), (31, [example_response]), (32, [])] Map.empty)
     = Some (ResponseData example_response)
   \<and> map_option fst (ask_question_wait ''id-1'' 0
       [(10, []), (31, [example_response]), (32, [])] Map.empty)
     = Some TimedOut"
  by (simp add: timeout_def listen_responses_def listen_message_def Let_def example_response_id)

text \<open>A response stored under the identifier a wait is for is returned and removed.\<close>

lemma wait_pops:
  "rs mid = Some r \<Longrightarrow>
     ask_question_wait mid start_time schedule rs = Some (ResponseData r, rs(mid := None))"
  by (cases schedule) auto

text \<open>A wait leaves alone what is stored under another identifier.\<close>

lemma wait_other_kept:
  assumes "rs k = Some r" and "k \<noteq> mid"
    and "\<forall>(now, arr) \<in> set schedule. \<forall>x \<in> set arr. message_id x \<noteq> k"
    and "ask_question_wait mid start_time schedule rs = Some (res, rs')"
  shows "rs' k = Some r"
  using assms
proof (induction schedule arbitrary: rs)
  case Nil
  then show ?case by (auto split: option.splits)
next
  case (Cons p schedule)
  obtain now arr where p: "p = (now, arr)" by (cases p)
  show ?case
  proof (cases "rs mid")
    case (Some x)
    with Cons.prems p show ?thesis by auto
  next
    case None
    show ?thesis
    proof (cases "now - start_time > timeout")
      case True
      with Cons.prems p None show ?thesis by auto
    next
      case False
      have kept: "listen_responses arr rs k = Some r"
        using Cons.prems(1,3) p by (simp add: listen_responses_other)
      have rest: "\<forall>(now, arr) \<in> set schedule. \<forall>x \<in> set arr. message_id x \<noteq> k"
        using Cons.prems(3) by simp
      from Cons.prems(4) p None False
      have "ask_question_wait mid start_time schedule (listen_responses arr rs) = Some (res, rs')"
        by simp
      from Cons.IH [where rs = "listen_responses arr rs", OF kept Cons.prems(2) rest this]
      show ?thesis .
    qed
  qed
qed

text \<open>
  Claim C5, as the code has it. The listener stores every message with a non-empty
  identifier under that identifier, whatever is or is not waiting, and leaves the
  other entries as they are. The entry stays through the later messages that carry
  other identifiers and through the waits on other identifiers, and a wait on its
  identifier returns and removes it. A message with an empty identifier changes
  nothing.
\<close>

theorem unmatched_reply_stored:
  "(message_id r \<noteq> [] \<longrightarrow> listen_message r rs (message_id r) = Some r)
   \<and> (message_id r \<noteq> k \<longrightarrow> listen_message r rs k = rs k)
   \<and> (message_id r = [] \<longrightarrow> listen_message r rs = rs)
   \<and> (message_id r \<noteq> [] \<and> (\<forall>x \<in> set later. message_id x \<noteq> message_id r) \<longrightarrow>
        listen_responses (r # later) rs (message_id r) = Some r)
   \<and> (rs mid = Some r \<longrightarrow>
        ask_question_wait mid start_time schedule rs
          = Some (ResponseData r, rs(mid := None)))
   \<and> (rs k = Some r \<and> k \<noteq> mid
        \<and> (\<forall>(now, arr) \<in> set schedule. \<forall>x \<in> set arr. message_id x \<noteq> k)
        \<and> ask_question_wait mid start_time schedule rs = Some (res, rs')
        \<longrightarrow> rs' k = Some r)"
proof -
  have a: "message_id r \<noteq> [] \<longrightarrow> listen_message r rs (message_id r) = Some r"
    by (simp add: listen_message_def Let_def)
  have o: "message_id r \<noteq> k \<longrightarrow> listen_message r rs k = rs k"
    by (simp add: listen_message_other)
  have b: "message_id r = [] \<longrightarrow> listen_message r rs = rs"
    by (simp add: listen_message_def Let_def)
  have c: "message_id r \<noteq> [] \<and> (\<forall>x \<in> set later. message_id x \<noteq> message_id r) \<longrightarrow>
        listen_responses (r # later) rs (message_id r) = Some r"
    using listen_responses_last [of r "message_id r" later "[]" rs] by simp
  have d: "rs mid = Some r \<longrightarrow>
        ask_question_wait mid start_time schedule rs
          = Some (ResponseData r, rs(mid := None))"
    by (simp add: wait_pops)
  have e: "rs k = Some r \<and> k \<noteq> mid
        \<and> (\<forall>(now, arr) \<in> set schedule. \<forall>x \<in> set arr. message_id x \<noteq> k)
        \<and> ask_question_wait mid start_time schedule rs = Some (res, rs')
        \<longrightarrow> rs' k = Some r"
    using wait_other_kept [where rs = rs and k = k and r = r and mid = mid
        and schedule = schedule and start_time = start_time and res = res and rs' = rs']
    by blast
  from a o b c d e show ?thesis by (intro conjI)
qed

theorem unmatched_reply_stored_witness:
  "message_id example_response \<noteq> []
   \<and> message_id other_response \<noteq> message_id example_response
   \<and> listen_message example_response Map.empty ''id-1'' = Some example_response
   \<and> listen_responses [example_response, other_response] Map.empty ''id-1''
       = Some example_response
   \<and> message_id anonymous_response = []
   \<and> listen_message anonymous_response Map.empty = Map.empty
   \<and> [''id-1'' \<mapsto> example_response] ''id-1'' = Some example_response
   \<and> ask_question_wait ''id-1'' 0 [(1, [])] [''id-1'' \<mapsto> example_response]
       = Some (ResponseData example_response, [''id-1'' \<mapsto> example_response](''id-1'' := None))
   \<and> ''id-1'' \<noteq> ''id-3''
   \<and> message_id other_response \<noteq> ''id-1''
   \<and> ask_question_wait ''id-3'' 0 [(1, [other_response]), (31, [])]
        [''id-1'' \<mapsto> example_response]
       = Some (TimedOut, listen_responses [other_response] [''id-1'' \<mapsto> example_response])
   \<and> listen_responses [other_response] [''id-1'' \<mapsto> example_response] ''id-1''
       = Some example_response
   \<and> listen_message other_response [''id-1'' \<mapsto> example_response] ''id-1''
       = Some example_response"
proof -
  have other: "message_id other_response \<noteq> ''id-1''" by (simp add: other_response_id)
  from unmatched_reply_stored [where r = other_response and k = "''id-1''"
      and rs = "[''id-1'' \<mapsto> example_response]"] other
  have untouched: "listen_message other_response [''id-1'' \<mapsto> example_response] ''id-1''
       = Some example_response"
    by simp
  have quiet: "\<forall>(now, arr) \<in> set [(1 :: rat, [other_response]), (31, [])].
                 \<forall>x \<in> set arr. message_id x \<noteq> ''id-1''"
    using other by simp
  have run: "ask_question_wait ''id-3'' 0 [(1, [other_response]), (31, [])]
        [''id-1'' \<mapsto> example_response]
       = Some (TimedOut, listen_responses [other_response] [''id-1'' \<mapsto> example_response])"
    by (simp add: timeout_def listen_responses_other other_response_id)
  have stored: "[''id-1'' \<mapsto> example_response] ''id-1'' = Some example_response" by simp
  note first = unmatched_reply_stored [where r = example_response and rs = Map.empty
      and later = "[other_response]"]
  note dropped = unmatched_reply_stored [where r = anonymous_response and rs = Map.empty
      and later = "[]"]
  note pops = unmatched_reply_stored [where r = example_response
      and rs = "[''id-1'' \<mapsto> example_response]" and mid = "''id-1''" and start_time = 0
      and schedule = "[(1, [])]"]
  note kept = unmatched_reply_stored [where rs = "[''id-1'' \<mapsto> example_response]"
      and k = "''id-1''" and r = example_response and mid = "''id-3''" and start_time = 0
      and schedule = "[(1, [other_response]), (31, [])]" and res = TimedOut
      and rs' = "listen_responses [other_response] [''id-1'' \<mapsto> example_response]"]
  from kept stored quiet run
  have k: "listen_responses [other_response] [''id-1'' \<mapsto> example_response] ''id-1''
             = Some example_response"
    by blast
  from pops have p: "ask_question_wait ''id-1'' 0 [(1, [])] [''id-1'' \<mapsto> example_response]
       = Some (ResponseData example_response, [''id-1'' \<mapsto> example_response](''id-1'' := None))"
    using stored by blast
  from first dropped
  have l: "message_id example_response \<noteq> []
     \<and> message_id other_response \<noteq> message_id example_response
     \<and> listen_message example_response Map.empty ''id-1'' = Some example_response
     \<and> listen_responses [example_response, other_response] Map.empty ''id-1''
         = Some example_response
     \<and> message_id anonymous_response = []
     \<and> listen_message anonymous_response Map.empty = Map.empty"
    by (simp add: example_response_id other_response_id anonymous_response_id)
  have ne: "''id-1'' \<noteq> ''id-3''" by simp
  from l stored p ne other run k untouched show ?thesis by (intro conjI) blast+
qed

theorem unmatched_reply_kept_counterexample:
  "ask_question_wait ''id-1'' 0 [(31, [])] Map.empty = Some (TimedOut, Map.empty)
   \<and> listen_message example_response Map.empty ''id-1'' = Some example_response"
  by (simp add: timeout_def listen_message_def Let_def example_response_id)

text \<open>
  Claim C6, as the code has it. A wait that no matching message reaches returns the
  timeout dictionary at the first check at which more than 30 seconds have passed, and
  not before. The 30 seconds are a constant of the loop, not an argument of the call.
\<close>

theorem timeout_fixed:
  assumes "rs mid = None"
    and "\<forall>(n, arr) \<in> set pre. n - start_time \<le> timeout \<and> (\<forall>x \<in> set arr. message_id x \<noteq> mid)"
    and "now - start_time > timeout"
  shows "ask_question_wait mid start_time (pre @ (now, arr) # rest) rs
           = Some (TimedOut, listen_responses (concat (map snd pre)) rs)
         \<and> ask_question_wait mid start_time pre rs = None
         \<and> timeout = 30
         \<and> TimedOut = Failure (ascii ''Response timeout'')"
proof -
  from wait_idle_prefix [where rs = rs and mid = mid and schedule = "(now, arr) # rest",
      OF assms(1,2)] assms(3)
  have "ask_question_wait mid start_time (pre @ (now, arr) # rest) rs
          = Some (TimedOut, listen_responses (concat (map snd pre)) rs)" by simp
  moreover
  from wait_idle_prefix [where rs = rs and mid = mid and schedule = "[]", OF assms(1,2)]
  have "ask_question_wait mid start_time pre rs = None" by simp
  ultimately show ?thesis by (simp add: timeout_def TimedOut_def)
qed

theorem timeout_fixed_witness:
  "(Map.empty :: responses) ''id-1'' = None
   \<and> (1 :: rat) - 0 \<le> timeout \<and> (30 :: rat) - 0 \<le> timeout
   \<and> message_id other_response \<noteq> ''id-1''
   \<and> 31 - 0 > timeout
   \<and> map_option fst (ask_question_wait ''id-1'' 0 [(1, [other_response]), (30, []), (31, [])]
         Map.empty) = Some TimedOut
   \<and> ask_question_wait ''id-1'' 0 [(1, [other_response]), (30, [])] Map.empty = None"
proof -
  have h1: "(Map.empty :: responses) ''id-1'' = None" by simp
  have le1: "(1 :: rat) - 0 \<le> timeout" and le2: "(30 :: rat) - 0 \<le> timeout"
    by (simp_all add: timeout_def)
  have other: "message_id other_response \<noteq> ''id-1''" by (simp add: other_response_id)
  have h2: "\<forall>(n, arr) \<in> set [(1, [other_response]), (30, [])].
              n - 0 \<le> timeout \<and> (\<forall>x \<in> set arr. message_id x \<noteq> ''id-1'')"
    using le1 le2 other by simp
  have h3: "31 - 0 > timeout" by (simp add: timeout_def)
  note t = timeout_fixed [where rs = Map.empty and mid = "''id-1''" and arr = "[]"
      and rest = "[]", OF h1 h2 h3, unfolded append_Cons append_Nil]
  from t have r1: "ask_question_wait ''id-1'' 0 [(1, [other_response]), (30, []), (31, [])]
         Map.empty
       = Some (TimedOut,
           listen_responses (concat (map snd [(1 :: rat, [other_response]), (30, [])]))
             Map.empty)"
    by (rule conjunct1)
  from t have r2: "ask_question_wait ''id-1'' 0 [(1, [other_response]), (30, [])] Map.empty = None"
    by blast
  have r3: "map_option fst (ask_question_wait ''id-1'' 0
         [(1, [other_response]), (30, []), (31, [])] Map.empty) = Some TimedOut"
    unfolding r1 by simp
  from h1 le1 le2 other h3 r3 r2 show ?thesis by (intro conjI)
qed

theorem timeout_not_configurable_counterexample:
  "map_option fst (spec_await_reply ''id-1'' 5 0 [(10, [example_response]), (11, [])] Map.empty)
     = Some TimedOut
   \<and> map_option fst (ask_question_wait ''id-1'' 0 [(10, [example_response]), (11, [])] Map.empty)
     = Some (ResponseData example_response)"
  by (simp add: timeout_def listen_responses_def listen_message_def Let_def example_response_id)


section \<open>Properties of the cost aggregation\<close>

lemma process_all_total_cost:
  "total_cost (process_all events st) = total_cost st + sum_list (map get_cost_usd events)"
  unfolding process_all_def
  by (induction events arbitrary: st) (simp_all add: process_cost_info_def Let_def)

lemma process_all_message_count:
  "message_count (process_all events st) = message_count st + length events"
  unfolding process_all_def
  by (induction events arbitrary: st) (simp_all add: process_cost_info_def Let_def)

lemma get_cost_usd_cost_data_of: "get_cost_usd (cost_data_of r) = cost_usd (cost_info r)"
  by (simp add: get_cost_usd_def get_cost_info_def cost_data_of_def CostInfo_dict_def)

lemma dom_add_cost: "dom (add_cost k c m) = insert k (dom m)"
  by (auto simp: add_cost_def Let_def split: option.splits if_splits)

lemma dom_process_cost_info:
  "dom (cost_by_agent (process_cost_info cd st)) = insert (get_agent_type cd) (dom (cost_by_agent st))"
  "dom (cost_by_model (process_cost_info cd st)) = insert (get_model_name cd) (dom (cost_by_model st))"
  by (simp_all add: process_cost_info_def Let_def dom_add_cost)

lemma dom_process_all:
  "dom (cost_by_agent (process_all events st))
     = dom (cost_by_agent st) \<union> set (map get_agent_type events)"
  "dom (cost_by_model (process_all events st))
     = dom (cost_by_model st) \<union> set (map get_model_name events)"
  unfolding process_all_def
  by (induction events arbitrary: st) (simp_all add: dom_process_cost_info)

text \<open>Every event of a run is counted under one key of each mapping.\<close>

lemma attributed_events:
  "(\<Sum>k \<in> dom (cost_by_agent (process_all events CostMonitor_init)).
       count_list (map get_agent_type events) k) = length events"
  "(\<Sum>k \<in> dom (cost_by_model (process_all events CostMonitor_init)).
       count_list (map get_model_name events) k) = length events"
proof -
  have "(\<Sum>k \<in> set (map get_agent_type events). count_list (map get_agent_type events) k)
          = length (map get_agent_type events)"
    by (rule sum_count_set) simp_all
  then show "(\<Sum>k \<in> dom (cost_by_agent (process_all events CostMonitor_init)).
       count_list (map get_agent_type events) k) = length events"
    by (simp add: dom_process_all CostMonitor_init_def)
  have "(\<Sum>k \<in> set (map get_model_name events). count_list (map get_model_name events) k)
          = length (map get_model_name events)"
    by (rule sum_count_set) simp_all
  then show "(\<Sum>k \<in> dom (cost_by_model (process_all events CostMonitor_init)).
       count_list (map get_model_name events) k) = length events"
    by (simp add: dom_process_all CostMonitor_init_def)
qed

text \<open>
  Claim C4. From the zeroed statistics, after the events of a run the snapshot reports
  the sum of their costs and their number; one event adds its cost to the total and
  one to the count. The cost read from the event a worker builds from a Response is
  the cost of that Response.
\<close>

theorem cost_aggregation_totals:
  "stat_total_cost (get_statistics now (process_all events CostMonitor_init))
     = sum_list (map get_cost_usd events)
   \<and> stat_total_messages (get_statistics now (process_all events CostMonitor_init))
     = length events
   \<and> total_cost (process_cost_info cd st) = total_cost st + get_cost_usd cd
   \<and> message_count (process_cost_info cd st) = message_count st + 1
   \<and> get_cost_usd (cost_data_of r) = cost_usd (cost_info r)"
  by (simp add: get_statistics_def process_all_total_cost process_all_message_count
      CostMonitor_init_def process_cost_info_def Let_def get_cost_usd_cost_data_of)

text \<open>What the two statements on a bucket leave under each key.\<close>

lemma add_cost_apply:
  "add_cost k c m k' =
     (if k' = k then Some ((case m k of None \<Rightarrow> 0 | Some v \<Rightarrow> v) + c) else m k')"
  by (simp add: add_cost_def Let_def split: option.splits)

lemma add_cost_upd:
  "add_cost k c m = m(k \<mapsto> (case m k of None \<Rightarrow> 0 | Some v \<Rightarrow> v) + c)"
  by (rule ext) (simp add: add_cost_apply)

lemma cost_by_agent_process_all:
  "cost_by_agent (process_all events st)
     = fold (\<lambda>e. add_cost (get_agent_type e) (get_cost_usd e)) events (cost_by_agent st)"
  unfolding process_all_def
  by (induction events arbitrary: st) (simp_all add: process_cost_info_def Let_def)

lemma cost_by_model_process_all:
  "cost_by_model (process_all events st)
     = fold (\<lambda>e. add_cost (get_model_name e) (get_cost_usd e)) events (cost_by_model st)"
  unfolding process_all_def
  by (induction events arbitrary: st) (simp_all add: process_cost_info_def Let_def)

text \<open>A bucket after a run: what it held, plus the costs of the events with its key.\<close>

lemma fold_add_cost_apply:
  "fold (\<lambda>e. add_cost (key e) (cost e)) events m k =
     (if k \<in> key ` set events
      then Some ((case m k of None \<Rightarrow> 0 | Some v \<Rightarrow> v)
                 + sum_list (map cost (filter (\<lambda>e. key e = k) events)))
      else m k)"
proof (induction events arbitrary: m)
  case Nil
  then show ?case by simp
next
  case (Cons e events)
  let ?m = "add_cost (key e) (cost e) m"
  note ih = Cons.IH [of ?m]
  have mk: "?m k = (if k = key e then Some ((case m (key e) of None \<Rightarrow> 0 | Some v \<Rightarrow> v) + cost e)
                    else m k)"
    by (rule add_cost_apply)
  have nofilter: "k \<notin> key ` set events \<Longrightarrow> filter (\<lambda>x. key x = k) events = []"
    by (auto simp: filter_empty_conv)
  show ?case
  proof (cases "key e = k")
    case True
    with ih mk nofilter show ?thesis
      by (auto simp: add.assoc split: option.splits)
  next
    case False
    with ih mk show ?thesis
      by auto
  qed
qed

text \<open>
  Claim C7, as the code has it. A missing agent type and a missing model name default
  to the key \<open>unknown\<close>, a missing cost dictionary to the empty one and a missing
  cost to zero; a field that is present is taken as it is; no field defaults to the
  empty string, and the request identifier of the event is not read. The event is
  counted, and its cost is added to the bucket of its agent key and to the bucket of
  its model key (a new bucket starts at zero) while every other bucket stays as it is.
  So after a run from the zeroed statistics each bucket holds the sum of the costs of
  the events with its key, there is a bucket for exactly the keys of the events, and
  the count is the number of events attributed to the buckets of either mapping.
\<close>

theorem missing_fields_defaults:
  "(c_agent_type cd = None \<longrightarrow> get_agent_type cd = ''unknown'')
   \<and> (c_cost_info cd = None \<longrightarrow>
        get_cost_info cd = empty_cost_info \<and> get_model_name cd = ''unknown''
        \<and> get_cost_usd cd = 0)
   \<and> (d_model_name (get_cost_info cd) = None \<longrightarrow> get_model_name cd = ''unknown'')
   \<and> (d_cost_usd (get_cost_info cd) = None \<longrightarrow> get_cost_usd cd = 0)
   \<and> (c_agent_type cd = Some a \<longrightarrow> get_agent_type cd = a)
   \<and> (c_cost_info cd = Some ci \<and> d_model_name ci = Some m \<longrightarrow> get_model_name cd = m)
   \<and> (c_cost_info cd = Some ci \<and> d_cost_usd ci = Some c \<longrightarrow> get_cost_usd cd = c)
   \<and> process_cost_info (cd\<lparr>c_message_id := i\<rparr>) st = process_cost_info cd st
   \<and> message_count (process_cost_info cd st) = message_count st + 1
   \<and> total_cost (process_cost_info cd st) = total_cost st + get_cost_usd cd
   \<and> cost_by_agent (process_cost_info cd st)
       = (cost_by_agent st)(get_agent_type cd \<mapsto>
           (case cost_by_agent st (get_agent_type cd) of None \<Rightarrow> 0 | Some v \<Rightarrow> v)
           + get_cost_usd cd)
   \<and> cost_by_model (process_cost_info cd st)
       = (cost_by_model st)(get_model_name cd \<mapsto>
           (case cost_by_model st (get_model_name cd) of None \<Rightarrow> 0 | Some v \<Rightarrow> v)
           + get_cost_usd cd)
   \<and> get_agent_type cd \<in> dom (cost_by_agent (process_cost_info cd st))
   \<and> get_model_name cd \<in> dom (cost_by_model (process_cost_info cd st))
   \<and> message_count (process_all events CostMonitor_init) = length events
   \<and> cost_by_agent (process_all events CostMonitor_init) key
       = (if key \<in> get_agent_type ` set events
          then Some (sum_list (map get_cost_usd (filter (\<lambda>e. get_agent_type e = key) events)))
          else None)
   \<and> cost_by_model (process_all events CostMonitor_init) key
       = (if key \<in> get_model_name ` set events
          then Some (sum_list (map get_cost_usd (filter (\<lambda>e. get_model_name e = key) events)))
          else None)
   \<and> (\<Sum>k \<in> dom (cost_by_agent (process_all events CostMonitor_init)).
         count_list (map get_agent_type events) k)
       = message_count (process_all events CostMonitor_init)
   \<and> (\<Sum>k \<in> dom (cost_by_model (process_all events CostMonitor_init)).
         count_list (map get_model_name events) k)
       = message_count (process_all events CostMonitor_init)"
proof -
  have d: "(c_agent_type cd = None \<longrightarrow> get_agent_type cd = ''unknown'')
   \<and> (c_cost_info cd = None \<longrightarrow>
        get_cost_info cd = empty_cost_info \<and> get_model_name cd = ''unknown''
        \<and> get_cost_usd cd = 0)
   \<and> (d_model_name (get_cost_info cd) = None \<longrightarrow> get_model_name cd = ''unknown'')
   \<and> (d_cost_usd (get_cost_info cd) = None \<longrightarrow> get_cost_usd cd = 0)"
    by (simp add: get_agent_type_def get_cost_info_def get_model_name_def get_cost_usd_def
        empty_cost_info_def)
  have p: "(c_agent_type cd = Some a \<longrightarrow> get_agent_type cd = a)
   \<and> (c_cost_info cd = Some ci \<and> d_model_name ci = Some m \<longrightarrow> get_model_name cd = m)
   \<and> (c_cost_info cd = Some ci \<and> d_cost_usd ci = Some c \<longrightarrow> get_cost_usd cd = c)"
    by (simp add: get_agent_type_def get_cost_info_def get_model_name_def get_cost_usd_def)
  have i: "process_cost_info (cd\<lparr>c_message_id := i\<rparr>) st = process_cost_info cd st"
    by (simp add: process_cost_info_def get_agent_type_def get_cost_info_def
        get_model_name_def get_cost_usd_def)
  have c: "message_count (process_cost_info cd st) = message_count st + 1"
    and t: "total_cost (process_cost_info cd st) = total_cost st + get_cost_usd cd"
    by (simp_all add: process_cost_info_def Let_def)
  have ba: "cost_by_agent (process_cost_info cd st)
       = (cost_by_agent st)(get_agent_type cd \<mapsto>
           (case cost_by_agent st (get_agent_type cd) of None \<Rightarrow> 0 | Some v \<Rightarrow> v)
           + get_cost_usd cd)"
    by (simp add: process_cost_info_def Let_def add_cost_upd)
  have bm: "cost_by_model (process_cost_info cd st)
       = (cost_by_model st)(get_model_name cd \<mapsto>
           (case cost_by_model st (get_model_name cd) of None \<Rightarrow> 0 | Some v \<Rightarrow> v)
           + get_cost_usd cd)"
    by (simp add: process_cost_info_def Let_def add_cost_upd)
  have da: "get_agent_type cd \<in> dom (cost_by_agent (process_cost_info cd st))"
    and dm: "get_model_name cd \<in> dom (cost_by_model (process_cost_info cd st))"
    by (simp_all add: dom_process_cost_info)
  have n: "message_count (process_all events CostMonitor_init) = length events"
    by (simp add: process_all_message_count CostMonitor_init_def)
  have ra: "cost_by_agent (process_all events CostMonitor_init) key
       = (if key \<in> get_agent_type ` set events
          then Some (sum_list (map get_cost_usd (filter (\<lambda>e. get_agent_type e = key) events)))
          else None)"
    by (simp add: cost_by_agent_process_all fold_add_cost_apply CostMonitor_init_def)
  have rm: "cost_by_model (process_all events CostMonitor_init) key
       = (if key \<in> get_model_name ` set events
          then Some (sum_list (map get_cost_usd (filter (\<lambda>e. get_model_name e = key) events)))
          else None)"
    by (simp add: cost_by_model_process_all fold_add_cost_apply CostMonitor_init_def)
  have sa: "(\<Sum>k \<in> dom (cost_by_agent (process_all events CostMonitor_init)).
         count_list (map get_agent_type events) k)
       = message_count (process_all events CostMonitor_init)"
    and sm: "(\<Sum>k \<in> dom (cost_by_model (process_all events CostMonitor_init)).
         count_list (map get_model_name events) k)
       = message_count (process_all events CostMonitor_init)"
    by (simp_all add: n attributed_events)
  from d p i c t ba bm da dm n ra rm sa sm show ?thesis by (intro conjI) blast+
qed

theorem missing_fields_defaults_witness:
  "c_agent_type event_without_fields = None
   \<and> c_cost_info event_without_fields = None
   \<and> d_model_name (get_cost_info event_without_fields) = None
   \<and> d_cost_usd (get_cost_info event_without_fields) = None
   \<and> get_agent_type event_without_fields = ''unknown''
   \<and> get_model_name event_without_fields = ''unknown''
   \<and> get_cost_usd event_without_fields = 0
   \<and> message_count (process_cost_info event_without_fields CostMonitor_init) = 1
   \<and> c_agent_type (cost_data_of example_response) = Some ''english_teacher''
   \<and> c_cost_info (cost_data_of example_response)
       = Some (CostInfo_dict (cost_info example_response))
   \<and> d_model_name (CostInfo_dict (cost_info example_response)) = Some ''gemini-1.5-flash''
   \<and> d_cost_usd (CostInfo_dict (cost_info example_response)) = Some (3 / 1600)
   \<and> get_agent_type (cost_data_of example_response) = ''english_teacher''
   \<and> get_model_name (cost_data_of example_response) = ''gemini-1.5-flash''
   \<and> get_cost_usd (cost_data_of example_response) = 3 / 1600
   \<and> message_count (process_all [event_without_fields, cost_data_of example_response]
        CostMonitor_init) = 2"
proof -
  have h1: "c_agent_type event_without_fields = None"
    and h2: "c_cost_info event_without_fields = None"
    by (simp_all add: event_without_fields_def)
  have g: "get_cost_info event_without_fields = empty_cost_info"
    by (simp add: get_cost_info_def h2)
  have h3: "d_model_name (get_cost_info event_without_fields) = None"
    and h4: "d_cost_usd (get_cost_info event_without_fields) = None"
    by (simp_all add: g empty_cost_info_def)
  have k1: "c_agent_type (cost_data_of example_response) = Some ''english_teacher''"
    and k2: "c_cost_info (cost_data_of example_response)
       = Some (CostInfo_dict (cost_info example_response))"
    and k3: "d_model_name (CostInfo_dict (cost_info example_response)) = Some ''gemini-1.5-flash''"
    and k4: "d_cost_usd (CostInfo_dict (cost_info example_response)) = Some (3 / 1600)"
    by (simp_all add: cost_data_of_def CostInfo_dict_def example_response_def)
  note missing = missing_fields_defaults [where cd = event_without_fields
      and st = CostMonitor_init
      and events = "[event_without_fields, cost_data_of example_response]"]
  note present = missing_fields_defaults [where cd = "cost_data_of example_response"
      and a = "''english_teacher''" and ci = "CostInfo_dict (cost_info example_response)"
      and m = "''gemini-1.5-flash''" and c = "3 / 1600"]
  from missing h1 h2 h3 h4
  have a: "get_agent_type event_without_fields = ''unknown''
     \<and> get_model_name event_without_fields = ''unknown''
     \<and> get_cost_usd event_without_fields = 0
     \<and> message_count (process_cost_info event_without_fields CostMonitor_init) = 1
     \<and> message_count (process_all [event_without_fields, cost_data_of example_response]
          CostMonitor_init) = 2"
    by (simp add: CostMonitor_init_def)
  from present k1 k2 k3 k4
  have b: "get_agent_type (cost_data_of example_response) = ''english_teacher''
     \<and> get_model_name (cost_data_of example_response) = ''gemini-1.5-flash''
     \<and> get_cost_usd (cost_data_of example_response) = 3 / 1600"
    by blast
  from h1 h2 h3 h4 a k1 k2 k3 k4 b show ?thesis by (intro conjI) blast+
qed

theorem missing_fields_counterexample:
  "cost_by_agent (process_cost_info event_without_fields CostMonitor_init) ''unknown'' = Some 0
   \<and> cost_by_agent (process_cost_info event_without_fields CostMonitor_init) [] = None
   \<and> cost_by_model (process_cost_info event_without_fields CostMonitor_init) ''unknown'' = Some 0
   \<and> cost_by_model (process_cost_info event_without_fields CostMonitor_init) [] = None"
  by (simp add: process_cost_info_def Let_def add_cost_def CostMonitor_init_def
      event_without_fields_def get_agent_type_def get_cost_info_def get_model_name_def
      get_cost_usd_def empty_cost_info_def)





end
